theory Spec2Isabelle
  imports Main "HOL-Library.Word"
begin

unbundle bit_operations_syntax

section \<open>Data model of \<open>objfile/moduledata_layout.go\<close>\<close>

type_synonym byte = "8 word"
type_synonym uint32 = "32 word"
type_synonym uint64 = "64 word"

text \<open>\<open>type FieldOffset struct { Offset uint64; Size uint64 }\<close>\<close>

record FieldOffset =
  Offset :: uint64
  Size :: uint64

text \<open>\<open>type ModuleDataLayout struct\<close>: fourteen field offsets and the pointer size.\<close>

record ModuleDataLayout =
  Text :: FieldOffset
  Types :: FieldOffset
  ETypes :: FieldOffset
  Typelinks :: FieldOffset
  ITablinks :: FieldOffset
  Ftab :: FieldOffset
  Minpc :: FieldOffset
  Textsectmap :: FieldOffset
  LegacyTypes :: FieldOffset
  Rodata :: FieldOffset
  Gofunc :: FieldOffset
  Covctrs :: FieldOffset
  Ecovctrs :: FieldOffset
  InitTasks :: FieldOffset
  PtrSize :: uint64

text \<open>
  A field that a Go composite literal does not mention holds the zero value of its type;
  for a \<open>FieldOffset\<close> that is \<open>{Offset: 0, Size: 0}\<close>.
\<close>

definition absent :: FieldOffset where
  "absent = \<lparr>Offset = 0, Size = 0\<rparr>"

subsection \<open>The entries of \<open>versionLayoutMap\<close>\<close>

definition layout_1_5 :: ModuleDataLayout where
  "layout_1_5 = \<lparr>
     Text = \<lparr>Offset = 0x40, Size = 4\<rparr>,
     Types = \<lparr>Offset = 0x0, Size = 0\<rparr>,
     ETypes = \<lparr>Offset = 0x0, Size = 0\<rparr>,
     Typelinks = \<lparr>Offset = 0x60, Size = 12\<rparr>,
     ITablinks = \<lparr>Offset = 0x0, Size = 0\<rparr>,
     Ftab = \<lparr>Offset = 0x8, Size = 12\<rparr>,
     Minpc = \<lparr>Offset = 0x20, Size = 4\<rparr>,
     Textsectmap = \<lparr>Offset = 0x0, Size = 0\<rparr>,
     LegacyTypes = \<lparr>Offset = 0x60, Size = 12\<rparr>,
     Rodata = absent, Gofunc = absent, Covctrs = absent, Ecovctrs = absent,
     InitTasks = absent,
     PtrSize = 4\<rparr>"

definition layout_1_5_64 :: ModuleDataLayout where
  "layout_1_5_64 = \<lparr>
     Text = \<lparr>Offset = 0x80, Size = 8\<rparr>,
     Types = \<lparr>Offset = 0x0, Size = 0\<rparr>,
     ETypes = \<lparr>Offset = 0x0, Size = 0\<rparr>,
     Typelinks = \<lparr>Offset = 0xc0, Size = 24\<rparr>,
     ITablinks = \<lparr>Offset = 0x0, Size = 0\<rparr>,
     Ftab = \<lparr>Offset = 0x10, Size = 24\<rparr>,
     Minpc = \<lparr>Offset = 0x40, Size = 8\<rparr>,
     Textsectmap = \<lparr>Offset = 0x0, Size = 0\<rparr>,
     LegacyTypes = \<lparr>Offset = 0xc0, Size = 24\<rparr>,
     Rodata = absent, Gofunc = absent, Covctrs = absent, Ecovctrs = absent,
     InitTasks = absent,
     PtrSize = 8\<rparr>"

definition layout_1_7 :: ModuleDataLayout where
  "layout_1_7 = \<lparr>
     Text = \<lparr>Offset = 0x40, Size = 4\<rparr>,
     Types = \<lparr>Offset = 0x60, Size = 4\<rparr>,
     ETypes = \<lparr>Offset = 0x64, Size = 4\<rparr>,
     Typelinks = \<lparr>Offset = 0x68, Size = 12\<rparr>,
     ITablinks = \<lparr>Offset = 0x74, Size = 12\<rparr>,
     Ftab = \<lparr>Offset = 0x8, Size = 12\<rparr>,
     Minpc = \<lparr>Offset = 0x20, Size = 4\<rparr>,
     Textsectmap = \<lparr>Offset = 0x0, Size = 0\<rparr>,
     LegacyTypes = absent,
     Rodata = absent, Gofunc = absent, Covctrs = absent, Ecovctrs = absent,
     InitTasks = absent,
     PtrSize = 4\<rparr>"

definition layout_1_7_64 :: ModuleDataLayout where
  "layout_1_7_64 = \<lparr>
     Text = \<lparr>Offset = 0x80, Size = 8\<rparr>,
     Types = \<lparr>Offset = 0xc0, Size = 8\<rparr>,
     ETypes = \<lparr>Offset = 0xc8, Size = 8\<rparr>,
     Typelinks = \<lparr>Offset = 0xd0, Size = 24\<rparr>,
     ITablinks = \<lparr>Offset = 0xe8, Size = 24\<rparr>,
     Ftab = \<lparr>Offset = 0x10, Size = 24\<rparr>,
     Minpc = \<lparr>Offset = 0x40, Size = 8\<rparr>,
     Textsectmap = \<lparr>Offset = 0x0, Size = 0\<rparr>,
     LegacyTypes = absent,
     Rodata = absent, Gofunc = absent, Covctrs = absent, Ecovctrs = absent,
     InitTasks = absent,
     PtrSize = 8\<rparr>"

definition layout_1_18 :: ModuleDataLayout where
  "layout_1_18 = \<lparr>
     Text = \<lparr>Offset = 0x40, Size = 4\<rparr>,
     Types = \<lparr>Offset = 0x60, Size = 4\<rparr>,
     ETypes = \<lparr>Offset = 0x64, Size = 4\<rparr>,
     Typelinks = \<lparr>Offset = 0x68, Size = 12\<rparr>,
     ITablinks = \<lparr>Offset = 0x74, Size = 12\<rparr>,
     Ftab = \<lparr>Offset = 0x8, Size = 12\<rparr>,
     Minpc = \<lparr>Offset = 0x20, Size = 4\<rparr>,
     Textsectmap = \<lparr>Offset = 0x80, Size = 12\<rparr>,
     LegacyTypes = absent,
     Rodata = \<lparr>Offset = 0x70, Size = 4\<rparr>,
     Gofunc = \<lparr>Offset = 0x74, Size = 4\<rparr>,
     Covctrs = absent, Ecovctrs = absent,
     InitTasks = absent,
     PtrSize = 4\<rparr>"

definition layout_1_18_64 :: ModuleDataLayout where
  "layout_1_18_64 = \<lparr>
     Text = \<lparr>Offset = 0x80, Size = 8\<rparr>,
     Types = \<lparr>Offset = 0xc0, Size = 8\<rparr>,
     ETypes = \<lparr>Offset = 0xc8, Size = 8\<rparr>,
     Typelinks = \<lparr>Offset = 0xd0, Size = 24\<rparr>,
     ITablinks = \<lparr>Offset = 0xe8, Size = 24\<rparr>,
     Ftab = \<lparr>Offset = 0x10, Size = 24\<rparr>,
     Minpc = \<lparr>Offset = 0x40, Size = 8\<rparr>,
     Textsectmap = \<lparr>Offset = 0x100, Size = 24\<rparr>,
     LegacyTypes = absent,
     Rodata = \<lparr>Offset = 0xe0, Size = 8\<rparr>,
     Gofunc = \<lparr>Offset = 0xe8, Size = 8\<rparr>,
     Covctrs = absent, Ecovctrs = absent,
     InitTasks = absent,
     PtrSize = 8\<rparr>"

definition layout_1_20 :: ModuleDataLayout where
  "layout_1_20 = \<lparr>
     Text = \<lparr>Offset = 0x40, Size = 4\<rparr>,
     Types = \<lparr>Offset = 0x60, Size = 4\<rparr>,
     ETypes = \<lparr>Offset = 0x64, Size = 4\<rparr>,
     Typelinks = \<lparr>Offset = 0x68, Size = 12\<rparr>,
     ITablinks = \<lparr>Offset = 0x74, Size = 12\<rparr>,
     Ftab = \<lparr>Offset = 0x8, Size = 12\<rparr>,
     Minpc = \<lparr>Offset = 0x20, Size = 4\<rparr>,
     Textsectmap = \<lparr>Offset = 0x80, Size = 12\<rparr>,
     LegacyTypes = absent,
     Rodata = \<lparr>Offset = 0x70, Size = 4\<rparr>,
     Gofunc = \<lparr>Offset = 0x74, Size = 4\<rparr>,
     Covctrs = \<lparr>Offset = 0x78, Size = 4\<rparr>,
     Ecovctrs = \<lparr>Offset = 0x7c, Size = 4\<rparr>,
     InitTasks = absent,
     PtrSize = 4\<rparr>"

definition layout_1_20_64 :: ModuleDataLayout where
  "layout_1_20_64 = \<lparr>
     Text = \<lparr>Offset = 0x80, Size = 8\<rparr>,
     Types = \<lparr>Offset = 0xc0, Size = 8\<rparr>,
     ETypes = \<lparr>Offset = 0xc8, Size = 8\<rparr>,
     Typelinks = \<lparr>Offset = 0xd0, Size = 24\<rparr>,
     ITablinks = \<lparr>Offset = 0xe8, Size = 24\<rparr>,
     Ftab = \<lparr>Offset = 0x10, Size = 24\<rparr>,
     Minpc = \<lparr>Offset = 0x40, Size = 8\<rparr>,
     Textsectmap = \<lparr>Offset = 0x100, Size = 24\<rparr>,
     LegacyTypes = absent,
     Rodata = \<lparr>Offset = 0xe0, Size = 8\<rparr>,
     Gofunc = \<lparr>Offset = 0xe8, Size = 8\<rparr>,
     Covctrs = \<lparr>Offset = 0xf0, Size = 8\<rparr>,
     Ecovctrs = \<lparr>Offset = 0xf8, Size = 8\<rparr>,
     InitTasks = absent,
     PtrSize = 8\<rparr>"

definition layout_1_22 :: ModuleDataLayout where
  "layout_1_22 = \<lparr>
     Text = \<lparr>Offset = 0x40, Size = 4\<rparr>,
     Types = \<lparr>Offset = 0x60, Size = 4\<rparr>,
     ETypes = \<lparr>Offset = 0x64, Size = 4\<rparr>,
     Typelinks = \<lparr>Offset = 0x68, Size = 12\<rparr>,
     ITablinks = \<lparr>Offset = 0x74, Size = 12\<rparr>,
     Ftab = \<lparr>Offset = 0x8, Size = 12\<rparr>,
     Minpc = \<lparr>Offset = 0x20, Size = 4\<rparr>,
     Textsectmap = \<lparr>Offset = 0x80, Size = 12\<rparr>,
     LegacyTypes = absent,
     Rodata = \<lparr>Offset = 0x70, Size = 4\<rparr>,
     Gofunc = \<lparr>Offset = 0x74, Size = 4\<rparr>,
     Covctrs = \<lparr>Offset = 0x78, Size = 4\<rparr>,
     Ecovctrs = \<lparr>Offset = 0x7c, Size = 4\<rparr>,
     InitTasks = \<lparr>Offset = 0x8c, Size = 12\<rparr>,
     PtrSize = 4\<rparr>"

definition layout_1_22_64 :: ModuleDataLayout where
  "layout_1_22_64 = \<lparr>
     Text = \<lparr>Offset = 0x80, Size = 8\<rparr>,
     Types = \<lparr>Offset = 0xc0, Size = 8\<rparr>,
     ETypes = \<lparr>Offset = 0xc8, Size = 8\<rparr>,
     Typelinks = \<lparr>Offset = 0xd0, Size = 24\<rparr>,
     ITablinks = \<lparr>Offset = 0xe8, Size = 24\<rparr>,
     Ftab = \<lparr>Offset = 0x10, Size = 24\<rparr>,
     Minpc = \<lparr>Offset = 0x40, Size = 8\<rparr>,
     Textsectmap = \<lparr>Offset = 0x100, Size = 24\<rparr>,
     LegacyTypes = absent,
     Rodata = \<lparr>Offset = 0xe0, Size = 8\<rparr>,
     Gofunc = \<lparr>Offset = 0xe8, Size = 8\<rparr>,
     Covctrs = \<lparr>Offset = 0xf0, Size = 8\<rparr>,
     Ecovctrs = \<lparr>Offset = 0xf8, Size = 8\<rparr>,
     InitTasks = \<lparr>Offset = 0x118, Size = 24\<rparr>,
     PtrSize = 8\<rparr>"

text \<open>
  \<open>var versionLayoutMap = map[string]ModuleDataLayout{...}\<close>: the table as the list of
  its (key, layout) pairs; the keys are distinct, so the lookup is \<open>map_of\<close>.
\<close>

definition versionLayoutTable :: "(string \<times> ModuleDataLayout) list" where
  "versionLayoutTable =
     [(''1.5'', layout_1_5), (''1.5_64'', layout_1_5_64),
      (''1.7'', layout_1_7), (''1.7_64'', layout_1_7_64),
      (''1.18'', layout_1_18), (''1.18_64'', layout_1_18_64),
      (''1.20'', layout_1_20), (''1.20_64'', layout_1_20_64),
      (''1.22'', layout_1_22), (''1.22_64'', layout_1_22_64)]"

definition versionLayoutMap :: "string \<rightharpoonup> ModuleDataLayout" where
  "versionLayoutMap = map_of versionLayoutTable"

text \<open>The fallback of \<open>getLayout\<close>: \<open>ModuleDataLayout{PtrSize: 4}\<close>.\<close>

definition defaultLayout :: ModuleDataLayout where
  "defaultLayout = \<lparr>
     Text = absent, Types = absent, ETypes = absent, Typelinks = absent,
     ITablinks = absent, Ftab = absent, Minpc = absent, Textsectmap = absent,
     LegacyTypes = absent, Rodata = absent, Gofunc = absent, Covctrs = absent,
     Ecovctrs = absent, InitTasks = absent,
     PtrSize = 4\<rparr>"

definition layoutKey :: "string \<Rightarrow> bool \<Rightarrow> string" where
  "layoutKey version is64bit = (if is64bit then version @ ''_64'' else version)"

definition getLayout :: "string \<Rightarrow> bool \<Rightarrow> ModuleDataLayout" where
  "getLayout version is64bit =
     (case versionLayoutMap (layoutKey version is64bit) of
        Some layout \<Rightarrow> layout
      | None \<Rightarrow> defaultLayout)"

text \<open>The scalar fields and the slice fields of a layout, by the reader that decodes them.\<close>

definition scalarFields :: "ModuleDataLayout \<Rightarrow> FieldOffset list" where
  "scalarFields l = [Text l, Types l, ETypes l, Minpc l, Rodata l, Gofunc l, Covctrs l, Ecovctrs l]"

definition sliceFields :: "ModuleDataLayout \<Rightarrow> FieldOffset list" where
  "sliceFields l = [Typelinks l, ITablinks l, Ftab l, Textsectmap l, LegacyTypes l, InitTasks l]"

definition allFields :: "ModuleDataLayout \<Rightarrow> FieldOffset list" where
  "allFields l = scalarFields l @ sliceFields l"

section \<open>Byte slices and \<open>encoding/binary\<close>\<close>

text \<open>
  A Go \<open>[]byte\<close> is a window on a backing array: \<open>elems\<close> are its \<open>len\<close> visible bytes
  and \<open>spare\<close> the bytes of the array between \<open>len\<close> and \<open>cap\<close>, which a slice
  expression may bring into view.
\<close>

record ByteSlice =
  elems :: "byte list"
  spare :: "byte list"

definition len :: "ByteSlice \<Rightarrow> nat" where
  "len b = length (elems b)"

definition cap :: "ByteSlice \<Rightarrow> nat" where
  "cap b = length (elems b) + length (spare b)"

text \<open>
  Outcomes other than a value: the two errors of the readers, the wrapping done by the
  parser (\<open>failed to read <name> field: <err>\<close>), the two kinds of validation failure,
  and a run-time panic (an index or slice bound out of range).
\<close>

datatype error =
    BoundsError uint64 uint64 nat
  | UnsupportedSize uint64
  | FieldError string error
  | TextVAMismatch uint64 uint64
  | InvalidSlice string uint64 uint64
  | Panic

definition bindE :: "error + 'a \<Rightarrow> ('a \<Rightarrow> error + 'b) \<Rightarrow> error + 'b" where
  "bindE m f = (case m of Inl e \<Rightarrow> Inl e | Inr x \<Rightarrow> f x)"

text \<open>
  The slice expression \<open>b[lo:hi]\<close> on a slice: it panics unless \<open>lo \<le> hi \<le> cap(b)\<close>;
  the result has length \<open>hi - lo\<close> and keeps the rest of the backing array as capacity.
\<close>

definition sliceExpr :: "ByteSlice \<Rightarrow> nat \<Rightarrow> nat \<Rightarrow> error + ByteSlice" where
  "sliceExpr b lo hi =
     (if lo \<le> hi \<and> hi \<le> cap b
      then Inr \<lparr>elems = take (hi - lo) (drop lo (elems b @ spare b)),
                spare = drop hi (elems b @ spare b)\<rparr>
      else Inl Panic)"

text \<open>
  \<open>binary.LittleEndian.Uint32\<close> and its siblings: a bounds check on the last byte read
  (\<open>_ = b[3]\<close>, \<open>_ = b[7]\<close>), then the bytes shifted into place.
\<close>

definition LittleEndian_Uint32 :: "ByteSlice \<Rightarrow> error + uint32" where
  "LittleEndian_Uint32 b =
     (if len b < 4 then Inl Panic
      else Inr (ucast (elems b ! 0) OR push_bit 8 (ucast (elems b ! 1))
                OR push_bit 16 (ucast (elems b ! 2)) OR push_bit 24 (ucast (elems b ! 3))))"

definition BigEndian_Uint32 :: "ByteSlice \<Rightarrow> error + uint32" where
  "BigEndian_Uint32 b =
     (if len b < 4 then Inl Panic
      else Inr (ucast (elems b ! 3) OR push_bit 8 (ucast (elems b ! 2))
                OR push_bit 16 (ucast (elems b ! 1)) OR push_bit 24 (ucast (elems b ! 0))))"

definition LittleEndian_Uint64 :: "ByteSlice \<Rightarrow> error + uint64" where
  "LittleEndian_Uint64 b =
     (if len b < 8 then Inl Panic
      else Inr (ucast (elems b ! 0) OR push_bit 8 (ucast (elems b ! 1))
                OR push_bit 16 (ucast (elems b ! 2)) OR push_bit 24 (ucast (elems b ! 3))
                OR push_bit 32 (ucast (elems b ! 4)) OR push_bit 40 (ucast (elems b ! 5))
                OR push_bit 48 (ucast (elems b ! 6)) OR push_bit 56 (ucast (elems b ! 7))))"

definition BigEndian_Uint64 :: "ByteSlice \<Rightarrow> error + uint64" where
  "BigEndian_Uint64 b =
     (if len b < 8 then Inl Panic
      else Inr (ucast (elems b ! 7) OR push_bit 8 (ucast (elems b ! 6))
                OR push_bit 16 (ucast (elems b ! 5)) OR push_bit 24 (ucast (elems b ! 4))
                OR push_bit 32 (ucast (elems b ! 3)) OR push_bit 40 (ucast (elems b ! 2))
                OR push_bit 48 (ucast (elems b ! 1)) OR push_bit 56 (ucast (elems b ! 0))))"

text \<open>\<open>uint64(x)\<close> of a \<open>uint32\<close> result.\<close>

definition widen :: "error + uint32 \<Rightarrow> error + uint64" where
  "widen r = (case r of Inl e \<Rightarrow> Inl e | Inr x \<Rightarrow> Inr (ucast x))"

section \<open>The field decoder\<close>

text \<open>
  \<open>readField\<close>. The sum \<open>offset.Offset+offset.Size\<close> is a \<open>uint64\<close> addition and wraps;
  \<open>len(data)\<close> is a non-negative \<open>int\<close>, so \<open>uint64(len(data))\<close> is the length itself and
  the comparison is one of unsigned values.
\<close>

definition readField :: "ByteSlice \<Rightarrow> FieldOffset \<Rightarrow> bool \<Rightarrow> error + uint64" where
  "readField data off littleEndian =
     (if Size off = 0 then Inr 0
      else if unat (Offset off + Size off) > len data
      then Inl (BoundsError (Offset off) (Size off) (len data))
      else bindE (sliceExpr data (unat (Offset off)) (unat (Offset off + Size off)))
        (\<lambda>fieldData.
           if Size off = 8 then
             (if littleEndian then LittleEndian_Uint64 fieldData
              else BigEndian_Uint64 fieldData)
           else if Size off = 4 then
             (if littleEndian then widen (LittleEndian_Uint32 fieldData)
              else widen (BigEndian_Uint32 fieldData))
           else Inl (UnsupportedSize (Size off))))"

text \<open>
  Modelled from the spec: the declarations of \<open>GoSlice64\<close> and \<open>pvoid64\<close> are not among
  the source files. The spec's SliceDescriptor is \<open>{data: 64-bit address-sized value,
  length: unsigned-integer, capacity: unsigned-integer}\<close>; the readers assign \<open>uint64\<close>
  values to \<open>Len\<close> and \<open>Capacity\<close> and convert to \<open>pvoid64\<close> for \<open>Data\<close>.
\<close>

record GoSlice64 =
  Data :: uint64
  Len :: uint64
  Capacity :: uint64

definition zeroSlice :: GoSlice64 where
  "zeroSlice = \<lparr>Data = 0, Len = 0, Capacity = 0\<rparr>"

definition readWords64 :: "(ByteSlice \<Rightarrow> error + uint64) \<Rightarrow> ByteSlice \<Rightarrow> error + GoSlice64" where
  "readWords64 rd sliceData =
     bindE (bindE (sliceExpr sliceData 0 8) rd) (\<lambda>d.
     bindE (bindE (sliceExpr sliceData 8 16) rd) (\<lambda>l.
     bindE (bindE (sliceExpr sliceData 16 24) rd) (\<lambda>c.
     Inr \<lparr>Data = d, Len = l, Capacity = c\<rparr>)))"

definition readWords32 :: "(ByteSlice \<Rightarrow> error + uint32) \<Rightarrow> ByteSlice \<Rightarrow> error + GoSlice64" where
  "readWords32 rd sliceData =
     bindE (widen (bindE (sliceExpr sliceData 0 4) rd)) (\<lambda>d.
     bindE (widen (bindE (sliceExpr sliceData 4 8) rd)) (\<lambda>l.
     bindE (widen (bindE (sliceExpr sliceData 8 12) rd)) (\<lambda>c.
     Inr \<lparr>Data = d, Len = l, Capacity = c\<rparr>)))"

definition readSlice :: "ByteSlice \<Rightarrow> FieldOffset \<Rightarrow> uint64 \<Rightarrow> bool \<Rightarrow> error + GoSlice64" where
  "readSlice data off ptrSize littleEndian =
     (if Size off = 0 then Inr zeroSlice
      else if unat (Offset off + Size off) > len data
      then Inl (BoundsError (Offset off) (Size off) (len data))
      else bindE (sliceExpr data (unat (Offset off)) (unat (Offset off + Size off)))
        (\<lambda>sliceData.
           if ptrSize = 8 then
             (if littleEndian then readWords64 LittleEndian_Uint64 sliceData
              else readWords64 BigEndian_Uint64 sliceData)
           else
             (if littleEndian then readWords32 LittleEndian_Uint32 sliceData
              else readWords32 BigEndian_Uint32 sliceData)))"

section \<open>The parser and the validator of \<open>moduledata_parser.go\<close>\<close>

text \<open>
  Modelled from the spec: the declaration of \<open>ModuleData\<close> is not among the source
  files. The spec's ModuleRecord has the scalar fields text virtual address, types-table
  address, end-of-types address, read-only-data address, go-func blob address and the
  two coverage-counter bounds, and the slice fields type-links, interface-table-links,
  legacy-types and init-tasks; the names are those the parser assigns to.
\<close>

record ModuleData =
  TextVA :: uint64
  Types :: uint64
  ETypes :: uint64
  Typelinks :: GoSlice64
  ITablinks :: GoSlice64
  LegacyTypes :: GoSlice64
  Rodata :: uint64
  Gofunc :: uint64
  Covctrs :: uint64
  Ecovctrs :: uint64
  InitTasks :: GoSlice64

text \<open>\<open>&ModuleData{}\<close>: every field at its zero value.\<close>

definition zeroModuleData :: ModuleData where
  "zeroModuleData = \<lparr>
     TextVA = 0, Types = 0, ETypes = 0,
     Typelinks = zeroSlice, ITablinks = zeroSlice, LegacyTypes = zeroSlice,
     Rodata = 0, Gofunc = 0, Covctrs = 0, Ecovctrs = 0,
     InitTasks = zeroSlice\<rparr>"

text \<open>
  \<open>strings.HasPrefix(s, prefix)\<close> is \<open>len(s) >= len(prefix) && s[:len(prefix)] == prefix\<close>.
\<close>

definition HasPrefix :: "string \<Rightarrow> string \<Rightarrow> bool" where
  "HasPrefix s pre = (length pre \<le> length s \<and> take (length pre) s = pre)"

text \<open>Go's \<open><\<close> on strings: lexicographic on the bytes.\<close>

fun stringLess :: "string \<Rightarrow> string \<Rightarrow> bool" where
  "stringLess [] [] = False"
| "stringLess [] (y # ys) = True"
| "stringLess (x # xs) [] = False"
| "stringLess (x # xs) (y # ys) =
     ((of_char x :: nat) < of_char y \<or> (x = y \<and> stringLess xs ys))"

text \<open>\<open>strings.Compare(a, b)\<close>: 0 if \<open>a == b\<close>, -1 if \<open>a < b\<close>, +1 otherwise.\<close>

definition Compare :: "string \<Rightarrow> string \<Rightarrow> int" where
  "Compare a b = (if a = b then 0 else if stringLess a b then - 1 else 1)"

text \<open>
  \<open>fmt.Errorf("failed to read <name> field: %v", err)\<close>; a panic is not an error value
  and passes through.
\<close>

fun wrapErr :: "string \<Rightarrow> error + 'a \<Rightarrow> error + 'a" where
  "wrapErr name (Inl Panic) = Inl Panic"
| "wrapErr name (Inl e) = Inl (FieldError name e)"
| "wrapErr name (Inr v) = Inr v"

definition ParseModuleData :: "ByteSlice \<Rightarrow> string \<Rightarrow> bool \<Rightarrow> bool \<Rightarrow> error + ModuleData" where
  "ParseModuleData data version is64bit littleEndian =
     (let layout = getLayout version is64bit; md = zeroModuleData in
      bindE (wrapErr ''TextVA'' (readField data (Text layout) littleEndian)) (\<lambda>v.
      let md = md\<lparr>TextVA := v\<rparr> in
      bindE (wrapErr ''Types'' (readField data (ModuleDataLayout.Types layout) littleEndian)) (\<lambda>v.
      let md = md\<lparr>Types := v\<rparr> in
      bindE (wrapErr ''ETypes'' (readField data (ModuleDataLayout.ETypes layout) littleEndian)) (\<lambda>v.
      let md = md\<lparr>ETypes := v\<rparr> in
      bindE (wrapErr ''Typelinks''
              (readSlice data (ModuleDataLayout.Typelinks layout) (PtrSize layout) littleEndian)) (\<lambda>v.
      let md = md\<lparr>Typelinks := v\<rparr> in
      bindE (wrapErr ''ITablinks''
              (readSlice data (ModuleDataLayout.ITablinks layout) (PtrSize layout) littleEndian)) (\<lambda>v.
      let md = md\<lparr>ITablinks := v\<rparr> in
      if HasPrefix version ''1.5'' then
        bindE (wrapErr ''LegacyTypes''
                (readSlice data (ModuleDataLayout.LegacyTypes layout) (PtrSize layout) littleEndian)) (\<lambda>v.
        Inr (md\<lparr>LegacyTypes := v\<rparr>))
      else if 0 \<le> Compare version ''1.7'' then
        bindE (wrapErr ''Rodata'' (readField data (ModuleDataLayout.Rodata layout) littleEndian)) (\<lambda>v.
        let md = md\<lparr>Rodata := v\<rparr> in
        bindE (wrapErr ''Gofunc'' (readField data (ModuleDataLayout.Gofunc layout) littleEndian)) (\<lambda>v.
        let md = md\<lparr>Gofunc := v\<rparr> in
        if 0 \<le> Compare version ''1.20'' then
          bindE (wrapErr ''Covctrs'' (readField data (ModuleDataLayout.Covctrs layout) littleEndian)) (\<lambda>v.
          let md = md\<lparr>Covctrs := v\<rparr> in
          bindE (wrapErr ''Ecovctrs'' (readField data (ModuleDataLayout.Ecovctrs layout) littleEndian)) (\<lambda>v.
          let md = md\<lparr>Ecovctrs := v\<rparr> in
          if 0 \<le> Compare version ''1.22'' then
            bindE (wrapErr ''InitTasks''
                    (readSlice data (ModuleDataLayout.InitTasks layout) (PtrSize layout) littleEndian)) (\<lambda>v.
            Inr (md\<lparr>InitTasks := v\<rparr>))
          else Inr md))
        else Inr md))
      else Inr md))))))"

text \<open>\<open>ValidateModuleData\<close>: \<open>None\<close> is Go's \<open>nil\<close> error.\<close>

definition ValidateModuleData :: "ModuleData \<Rightarrow> uint64 \<Rightarrow> error option" where
  "ValidateModuleData md firstFuncEntry =
     (if TextVA md \<noteq> firstFuncEntry then Some (TextVAMismatch (TextVA md) firstFuncEntry)
      else if Len (Typelinks md) > Capacity (Typelinks md)
      then Some (InvalidSlice ''Typelinks'' (Len (Typelinks md)) (Capacity (Typelinks md)))
      else if Len (ITablinks md) > Capacity (ITablinks md)
      then Some (InvalidSlice ''ITablinks'' (Len (ITablinks md)) (Capacity (ITablinks md)))
      else if Len (LegacyTypes md) > Capacity (LegacyTypes md)
      then Some (InvalidSlice ''LegacyTypes'' (Len (LegacyTypes md)) (Capacity (LegacyTypes md)))
      else if Len (InitTasks md) > Capacity (InitTasks md)
      then Some (InvalidSlice ''InitTasks'' (Len (InitTasks md)) (Capacity (InitTasks md)))
      else None)"

section \<open>Writing values into a buffer\<close>

text \<open>
  \<open>binary.LittleEndian.PutUint32\<close> and its siblings store the bytes of a value, lowest
  first (little-endian) or highest first (big-endian).
\<close>

definition bytesLE32 :: "uint32 \<Rightarrow> byte list" where
  "bytesLE32 v = [ucast v, ucast (drop_bit 8 v), ucast (drop_bit 16 v), ucast (drop_bit 24 v)]"

definition bytesLE64 :: "uint64 \<Rightarrow> byte list" where
  "bytesLE64 v = [ucast v, ucast (drop_bit 8 v), ucast (drop_bit 16 v), ucast (drop_bit 24 v),
                  ucast (drop_bit 32 v), ucast (drop_bit 40 v), ucast (drop_bit 48 v),
                  ucast (drop_bit 56 v)]"

definition bytesBE32 :: "uint32 \<Rightarrow> byte list" where
  "bytesBE32 v = [ucast (drop_bit 24 v), ucast (drop_bit 16 v), ucast (drop_bit 8 v), ucast v]"

definition bytesBE64 :: "uint64 \<Rightarrow> byte list" where
  "bytesBE64 v = [ucast (drop_bit 56 v), ucast (drop_bit 48 v), ucast (drop_bit 40 v),
                  ucast (drop_bit 32 v), ucast (drop_bit 24 v), ucast (drop_bit 16 v),
                  ucast (drop_bit 8 v), ucast v]"

text \<open>
  \<open>binary.<order>.PutUintN(buf[off:], v)\<close>, as the test helpers call it: \<open>buf[off:]\<close>
  panics unless \<open>off \<le> len(buf)\<close>, \<open>PutUintN\<close> panics unless the sub-slice holds the
  bytes it stores (\<open>_ = b[7]\<close>, \<open>_ = b[3]\<close>); the sub-slice shares the backing array of
  \<open>buf\<close>, so the bytes land in \<open>buf\<close> from index \<open>off\<close> on.
\<close>

definition putBytes :: "ByteSlice \<Rightarrow> nat \<Rightarrow> byte list \<Rightarrow> error + ByteSlice" where
  "putBytes buf off bs =
     (if off \<le> len buf \<and> length bs \<le> len buf - off
      then Inr (buf\<lparr>elems := take off (elems buf) @ bs @ drop (off + length bs) (elems buf)\<rparr>)
      else Inl Panic)"

text \<open>\<open>make([]byte, n)\<close>\<close>

definition make :: "nat \<Rightarrow> ByteSlice" where
  "make n = \<lparr>elems = replicate n 0, spare = []\<rparr>"

text \<open>
  The helpers \<open>writeAt\<close> and \<open>writeSlice\<close> of \<open>createTestModuleData\<close>, with the buffer they
  close over passed in and returned.
\<close>

definition writeAt :: "ByteSlice \<Rightarrow> bool \<Rightarrow> FieldOffset \<Rightarrow> uint64 \<Rightarrow> error + ByteSlice" where
  "writeAt buf is64bit off v =
     (if Size off = 0 then Inr buf
      else if is64bit then putBytes buf (unat (Offset off)) (bytesLE64 v)
      else putBytes buf (unat (Offset off)) (bytesLE32 (ucast v)))"

definition writeSlice ::
    "ByteSlice \<Rightarrow> bool \<Rightarrow> FieldOffset \<Rightarrow> uint64 \<Rightarrow> uint64 \<Rightarrow> uint64 \<Rightarrow> error + ByteSlice" where
  "writeSlice buf is64bit off d l c =
     (if Size off = 0 then Inr buf
      else if is64bit then
        bindE (putBytes buf (unat (Offset off)) (bytesLE64 d)) (\<lambda>buf.
        bindE (putBytes buf (unat (Offset off + 8)) (bytesLE64 l)) (\<lambda>buf.
        putBytes buf (unat (Offset off + 16)) (bytesLE64 c)))
      else
        bindE (putBytes buf (unat (Offset off)) (bytesLE32 (ucast d))) (\<lambda>buf.
        bindE (putBytes buf (unat (Offset off + 4)) (bytesLE32 (ucast l))) (\<lambda>buf.
        putBytes buf (unat (Offset off + 8)) (bytesLE32 (ucast c)))))"

text \<open>
  \<open>createTestModuleData\<close>: a zeroed buffer of 1024 bytes with every field of the layout
  written at its offset; the version-specific writes are gated by Go's string
  comparisons \<open>version == "1.5"\<close>, \<open>version >= "1.18"\<close>, \<open>"1.20"\<close>, \<open>"1.22"\<close>.
\<close>

definition stringGe :: "string \<Rightarrow> string \<Rightarrow> bool" where
  "stringGe a b = (\<not> stringLess a b)"

definition createTestModuleData :: "string \<Rightarrow> bool \<Rightarrow> error + ByteSlice" where
  "createTestModuleData version is64bit =
     (let layout = getLayout version is64bit in
      bindE (writeAt (make 1024) is64bit (Text layout) 0x1000) (\<lambda>buf.
      bindE (writeAt buf is64bit (ModuleDataLayout.Types layout) 0x2000) (\<lambda>buf.
      bindE (writeAt buf is64bit (ModuleDataLayout.ETypes layout) 0x3000) (\<lambda>buf.
      bindE (writeAt buf is64bit (Minpc layout) 0x4000) (\<lambda>buf.
      bindE (writeSlice buf is64bit (ModuleDataLayout.Typelinks layout) 0x5000 10 20) (\<lambda>buf.
      bindE (writeSlice buf is64bit (ModuleDataLayout.ITablinks layout) 0x6000 15 25) (\<lambda>buf.
      bindE (writeSlice buf is64bit (Ftab layout) 0x7000 20 30) (\<lambda>buf.
      if version = ''1.5'' then
        writeSlice buf is64bit (ModuleDataLayout.LegacyTypes layout) 0x8000 10 20
      else if stringGe version ''1.18'' then
        bindE (writeAt buf is64bit (ModuleDataLayout.Rodata layout) 0x9000) (\<lambda>buf.
        bindE (writeAt buf is64bit (ModuleDataLayout.Gofunc layout) 0xa000) (\<lambda>buf.
        if stringGe version ''1.20'' then
          bindE (writeAt buf is64bit (ModuleDataLayout.Covctrs layout) 0xb000) (\<lambda>buf.
          bindE (writeAt buf is64bit (ModuleDataLayout.Ecovctrs layout) 0xc000) (\<lambda>buf.
          if stringGe version ''1.22'' then
            writeSlice buf is64bit (ModuleDataLayout.InitTasks layout) 0xd000 5 10
          else Inr buf))
        else Inr buf))
      else Inr buf))))))))"

text \<open>
  The encoder of the round-trip property: the value stored at the field's offset in the
  field's width (\<open>PutUint64\<close> for size 8, \<open>PutUint32\<close> of the value's low 32 bits for
  size 4) and in the requested byte order.
\<close>

definition encodeField :: "ByteSlice \<Rightarrow> FieldOffset \<Rightarrow> bool \<Rightarrow> uint64 \<Rightarrow> error + ByteSlice" where
  "encodeField buf off littleEndian v =
     (if Size off = 8 then
        putBytes buf (unat (Offset off)) (if littleEndian then bytesLE64 v else bytesBE64 v)
      else if Size off = 4 then
        putBytes buf (unat (Offset off))
          (if littleEndian then bytesLE32 (ucast v) else bytesBE32 (ucast v))
      else Inl (UnsupportedSize (Size off)))"

section \<open>The layout registry\<close>

lemmas layout_defs =
  layout_1_5_def layout_1_5_64_def layout_1_7_def layout_1_7_64_def
  layout_1_18_def layout_1_18_64_def layout_1_20_def layout_1_20_64_def
  layout_1_22_def layout_1_22_64_def

lemmas field_lists = allFields_def scalarFields_def sliceFields_def

lemma getLayout_default:
  assumes "versionLayoutMap (layoutKey version is64bit) = None"
  shows "getLayout version is64bit = defaultLayout"
  using assms by (simp add: getLayout_def)

lemma defaultLayout_absent: "list_all (\<lambda>f. Size f = 0) (allFields defaultLayout)"
  by (simp add: defaultLayout_def field_lists absent_def)

lemma key_9_99_unknown: "versionLayoutMap (layoutKey ''9.99'' True) = None"
  by (simp add: versionLayoutMap_def versionLayoutTable_def layoutKey_def)

text \<open>
  C3. \<open>getLayout("9.99", true)\<close> returns a layout whose pointer width is 8 and whose
  fields all have size 0. The code returns the fallback layout, whose pointer width is 4
  whatever the bitness flag says; as amended: the pointer width is 4 and every field has
  size 0.
\<close>

theorem getLayout_9_99_fallback:
  "PtrSize (getLayout ''9.99'' True) = 4 \<and>
   list_all (\<lambda>f. Size f = 0) (allFields (getLayout ''9.99'' True))"
  by (simp add: getLayout_default [OF key_9_99_unknown] defaultLayout_absent)
     (simp add: defaultLayout_def)

text \<open>The pointer width of that layout is not 8.\<close>

theorem getLayout_9_99_PtrSize_not_8:
  "PtrSize (getLayout ''9.99'' True) \<noteq> 8"
  by (simp add: getLayout_default [OF key_9_99_unknown] defaultLayout_def)

text \<open>
  C4. For every version string and bitness flag whose lookup key is not in the registry,
  \<open>getLayout\<close> returns a layout in which every field has size 0 and the pointer width
  is 4, whatever the bitness flag.
\<close>

theorem getLayout_unknown_key:
  assumes "versionLayoutMap (layoutKey version is64bit) = None"
  shows "PtrSize (getLayout version is64bit) = 4 \<and>
         list_all (\<lambda>f. Size f = 0) (allFields (getLayout version is64bit))"
  by (simp add: getLayout_default [OF assms] defaultLayout_absent)
     (simp add: defaultLayout_def)

theorem getLayout_unknown_key_witness:
  "versionLayoutMap (layoutKey ''1.21'' True) = None \<and>
   PtrSize (getLayout ''1.21'' True) = 4 \<and>
   list_all (\<lambda>f. Size f = 0) (allFields (getLayout ''1.21'' True))"
proof -
  have k: "versionLayoutMap (layoutKey ''1.21'' True) = None"
    by (simp add: versionLayoutMap_def versionLayoutTable_def layoutKey_def)
  from k getLayout_unknown_key [OF k] show ?thesis by simp
qed

lemma table_sizes:
  "list_all (\<lambda>(k, l).
      list_all (\<lambda>f. Size f = 0 \<or> Size f = PtrSize l) (scalarFields l) \<and>
      list_all (\<lambda>f. Size f = 0 \<or> unat (Size f) = 3 * unat (PtrSize l)) (sliceFields l))
     versionLayoutTable"
  by (simp add: versionLayoutTable_def field_lists absent_def layout_defs)

text \<open>
  C9. In every entry of the registry, a scalar field (text, types, end of types, minimum
  program counter, read-only data, go-func blob, coverage counters start and end) that is
  present has the size of a pointer, a slice field (type links, interface-table links,
  function table, text-section map, legacy types, init tasks) that is present has exactly
  three times that size, and an absent field has size 0.
\<close>

theorem registry_field_sizes:
  assumes "versionLayoutMap key = Some l"
  shows "list_all (\<lambda>f. Size f = 0 \<or> Size f = PtrSize l) (scalarFields l) \<and>
         list_all (\<lambda>f. Size f = 0 \<or> unat (Size f) = 3 * unat (PtrSize l)) (sliceFields l)"
proof -
  from assms have "(key, l) \<in> set versionLayoutTable"
    unfolding versionLayoutMap_def by (rule map_of_SomeD)
  with table_sizes show ?thesis
    by (auto simp: list_all_iff)
qed

theorem registry_field_sizes_witness:
  "versionLayoutMap ''1.22_64'' = Some layout_1_22_64 \<and>
   list_all (\<lambda>f. Size f = 0 \<or> Size f = 8) (scalarFields layout_1_22_64) \<and>
   list_all (\<lambda>f. Size f = 0 \<or> unat (Size f) = 24) (sliceFields layout_1_22_64)"
proof -
  have k: "versionLayoutMap ''1.22_64'' = Some layout_1_22_64"
    by (simp add: versionLayoutMap_def versionLayoutTable_def)
  have p: "PtrSize layout_1_22_64 = 8"
    by (simp add: layout_1_22_64_def)
  from k registry_field_sizes [OF k] show ?thesis
    by (simp add: p)
qed

section \<open>The field decoder\<close>

text \<open>
  C6. For every buffer, of any length and contents, and every field offset of size 0,
  \<open>readField\<close> returns 0 and \<open>readSlice\<close> returns the all-zero slice, both without error,
  whatever the byte order and the pointer width.
\<close>

theorem read_absent_field:
  assumes "Size off = 0"
  shows "readField data off littleEndian = Inr 0 \<and>
         readSlice data off ptrSize littleEndian = Inr zeroSlice"
  using assms by (simp add: readField_def readSlice_def)

theorem read_absent_field_witness:
  "readField (make 0) \<lparr>Offset = 5, Size = 0\<rparr> False = Inr 0 \<and>
   readSlice (make 0) \<lparr>Offset = 5, Size = 0\<rparr> 8 False = Inr zeroSlice"
  using read_absent_field [of "\<lparr>Offset = 5, Size = 0\<rparr>" "make 0" False 8]
  by simp

text \<open>
  Where the sum of offset and size does not wrap around, a field that ends beyond the
  buffer is a bounds error of both readers.
\<close>

lemma read_beyond_buffer_nowrap:
  assumes "Size off \<noteq> 0"
    and "unat (Offset off) + unat (Size off) > len data"
    and "unat (Offset off) + unat (Size off) < 2 ^ 64"
  shows "readField data off littleEndian =
           Inl (BoundsError (Offset off) (Size off) (len data))"
    and "readSlice data off ptrSize littleEndian =
           Inl (BoundsError (Offset off) (Size off) (len data))"
proof -
  have "unat (Offset off) + unat (Size off) < 2 ^ LENGTH(64)"
    using assms(3) by simp
  then have "unat (Offset off + Size off) = unat (Offset off) + unat (Size off)"
    by (simp only: unat_add_lem [THEN iffD1])
  with assms show
    "readField data off littleEndian =
       Inl (BoundsError (Offset off) (Size off) (len data))"
    and "readSlice data off ptrSize littleEndian =
       Inl (BoundsError (Offset off) (Size off) (len data))"
    by (simp_all add: readField_def readSlice_def)
qed

text \<open>
  C5. For every buffer and every field offset of size 4 or 8 whose offset plus size
  exceeds the length of the buffer, both readers return a bounds error, in both byte
  orders. This holds where the sum of offset and size fits in 64 bits, as it does for
  every offset of the registry; the readers add the two as \<open>uint64\<close> values and have no
  check for a sum that wraps around.
\<close>

theorem read_beyond_buffer:
  assumes "Size off = 4 \<or> Size off = 8"
    and "unat (Offset off) + unat (Size off) > len data"
    and "unat (Offset off) + unat (Size off) < 2 ^ 64"
  shows "readField data off littleEndian =
           Inl (BoundsError (Offset off) (Size off) (len data)) \<and>
         readSlice data off ptrSize littleEndian =
           Inl (BoundsError (Offset off) (Size off) (len data))"
proof -
  from assms(1) have "Size off \<noteq> 0" by auto
  from read_beyond_buffer_nowrap [OF this assms(2) assms(3)]
  show ?thesis by simp
qed

theorem read_beyond_buffer_witness:
  "(Size \<lparr>Offset = 6, Size = 4\<rparr> = 4 \<or> Size \<lparr>Offset = 6, Size = 4\<rparr> = 8) \<and>
   unat (6 :: uint64) + unat (4 :: uint64) > len (make 8) \<and>
   unat (6 :: uint64) + unat (4 :: uint64) < 2 ^ 64 \<and>
   readField (make 8) \<lparr>Offset = 6, Size = 4\<rparr> False = Inl (BoundsError 6 4 8) \<and>
   readSlice (make 8) \<lparr>Offset = 6, Size = 4\<rparr> 4 False = Inl (BoundsError 6 4 8)"
  using read_beyond_buffer [of "\<lparr>Offset = 6, Size = 4\<rparr>" "make 8" False 4]
  by (simp add: make_def len_def)

text \<open>
  Without the condition on the sum the statement fails: on a buffer of 8 bytes, with
  offset \<open>0xFFFFFFFFFFFFFFFC\<close> and size 8, the mathematical sum exceeds the length, but
  the \<open>uint64\<close> sum wraps to 4, the bounds check passes and the slice expression that
  follows panics in both readers.
\<close>

theorem read_wrapped_offset_panics:
  "unat (0xFFFFFFFFFFFFFFFC :: uint64) + unat (8 :: uint64) > len (make 8) \<and>
   readField (make 8) \<lparr>Offset = 0xFFFFFFFFFFFFFFFC, Size = 8\<rparr> True = Inl Panic \<and>
   readSlice (make 8) \<lparr>Offset = 0xFFFFFFFFFFFFFFFC, Size = 8\<rparr> 8 True = Inl Panic"
  by (simp add: readField_def readSlice_def make_def len_def cap_def sliceExpr_def bindE_def)

subsection \<open>Encoding and decoding a value\<close>

lemma bit_piece64:
  "bit (v AND push_bit k (mask 8) :: uint64) n = (bit v n \<and> k \<le> n \<and> n < k + 8)"
  by (auto simp add: bit_simps dest: bit_imp_le_length)

lemma bit_piece32:
  "bit (v AND push_bit k (mask 8) :: uint32) n = (bit v n \<and> k \<le> n \<and> n < k + 8)"
  by (auto simp add: bit_simps dest: bit_imp_le_length)

lemma byte_piece64:
  "push_bit k (ucast (ucast (drop_bit k (v::uint64)) :: byte) :: uint64) = v AND push_bit k (mask 8)"
  by (rule bit_word_eqI) (auto simp add: bit_simps)

lemma byte_piece32:
  "push_bit k (ucast (ucast (drop_bit k (v::uint32)) :: byte) :: uint32) = v AND push_bit k (mask 8)"
  by (rule bit_word_eqI) (auto simp add: bit_simps)

lemma low_byte64: "(ucast (ucast (v::uint64) :: byte) :: uint64) = v AND mask 8"
  by (rule bit_word_eqI) (auto simp add: bit_simps)

lemma low_byte32: "(ucast (ucast (v::uint32) :: byte) :: uint32) = v AND mask 8"
  by (rule bit_word_eqI) (auto simp add: bit_simps)

lemma join_bytes64:
  "v AND push_bit 0 (mask 8) OR v AND push_bit 8 (mask 8) OR v AND push_bit 16 (mask 8)
   OR v AND push_bit 24 (mask 8) OR v AND push_bit 32 (mask 8) OR v AND push_bit 40 (mask 8)
   OR v AND push_bit 48 (mask 8) OR v AND push_bit 56 (mask 8) = (v :: uint64)"
  (is "?j = v")
proof (rule bit_word_eqI)
  fix n assume "n < LENGTH(64)"
  then have c: "n < 8 \<or> (8 \<le> n \<and> n < 16) \<or> (16 \<le> n \<and> n < 24) \<or> (24 \<le> n \<and> n < 32)
      \<or> (32 \<le> n \<and> n < 40) \<or> (40 \<le> n \<and> n < 48) \<or> (48 \<le> n \<and> n < 56)
      \<or> (56 \<le> n \<and> n < 64)"
    by simp linarith
  show "bit ?j n = bit v n"
    unfolding bit_or_iff bit_piece64 using c by (cases "bit v n") simp_all
qed

lemma join_bytes32:
  "v AND push_bit 0 (mask 8) OR v AND push_bit 8 (mask 8) OR v AND push_bit 16 (mask 8)
   OR v AND push_bit 24 (mask 8) = (v :: uint32)"
  (is "?j = v")
proof (rule bit_word_eqI)
  fix n assume "n < LENGTH(32)"
  then have c: "n < 8 \<or> (8 \<le> n \<and> n < 16) \<or> (16 \<le> n \<and> n < 24) \<or> (24 \<le> n \<and> n < 32)"
    by simp linarith
  show "bit ?j n = bit v n"
    unfolding bit_or_iff bit_piece32 using c by (cases "bit v n") simp_all
qed

lemma LittleEndian_Uint64_bytes:
  "LittleEndian_Uint64 \<lparr>elems = bytesLE64 v, spare = s\<rparr> = Inr v"
proof -
  have "ucast (ucast v :: byte)
      OR push_bit 8 (ucast (ucast (drop_bit 8 v) :: byte))
      OR push_bit 16 (ucast (ucast (drop_bit 16 v) :: byte))
      OR push_bit 24 (ucast (ucast (drop_bit 24 v) :: byte))
      OR push_bit 32 (ucast (ucast (drop_bit 32 v) :: byte))
      OR push_bit 40 (ucast (ucast (drop_bit 40 v) :: byte))
      OR push_bit 48 (ucast (ucast (drop_bit 48 v) :: byte))
      OR push_bit 56 (ucast (ucast (drop_bit 56 v) :: byte)) = v"
    using join_bytes64 [of v] unfolding byte_piece64 by (simp add: low_byte64)
  then show ?thesis
    by (simp add: LittleEndian_Uint64_def bytesLE64_def len_def)
qed

lemma BigEndian_Uint64_bytes:
  "BigEndian_Uint64 \<lparr>elems = bytesBE64 v, spare = s\<rparr> = Inr v"
  using LittleEndian_Uint64_bytes [of v s]
  by (simp add: LittleEndian_Uint64_def BigEndian_Uint64_def bytesLE64_def bytesBE64_def len_def)

lemma LittleEndian_Uint32_bytes:
  "LittleEndian_Uint32 \<lparr>elems = bytesLE32 v, spare = s\<rparr> = Inr v"
proof -
  have "ucast (ucast v :: byte)
      OR push_bit 8 (ucast (ucast (drop_bit 8 v) :: byte))
      OR push_bit 16 (ucast (ucast (drop_bit 16 v) :: byte))
      OR push_bit 24 (ucast (ucast (drop_bit 24 v) :: byte)) = v"
    using join_bytes32 [of v] unfolding byte_piece32 by (simp add: low_byte32)
  then show ?thesis
    by (simp add: LittleEndian_Uint32_def bytesLE32_def len_def)
qed

lemma BigEndian_Uint32_bytes:
  "BigEndian_Uint32 \<lparr>elems = bytesBE32 v, spare = s\<rparr> = Inr v"
  using LittleEndian_Uint32_bytes [of v s]
  by (simp add: LittleEndian_Uint32_def BigEndian_Uint32_def bytesLE32_def bytesBE32_def len_def)

lemma uint32_of_small_uint64:
  "unat (V :: uint64) < 2 ^ 32 \<Longrightarrow> (ucast (ucast V :: uint32) :: uint64) = V"
  by (simp add: word_unat_eq_iff unsigned_ucast_eq unsigned_take_bit_eq take_bit_nat_eq_self)

lemma putBytes_then_slice:
  assumes "off + length bs \<le> len buf"
  shows "\<exists>buf' s. putBytes buf off bs = Inr buf' \<and> len buf' = len buf \<and>
           sliceExpr buf' off (off + length bs) = Inr \<lparr>elems = bs, spare = s\<rparr>"
  using assms
  by (simp add: putBytes_def sliceExpr_def len_def cap_def)

lemma unat_end_nowrap:
  assumes "unat (a :: uint64) + unat b \<le> n" "n < 2 ^ 63"
  shows "unat (a + b) = unat a + unat b"
proof -
  have "unat a + unat b < 2 ^ LENGTH(64)" using assms by simp
  then show ?thesis by (simp only: unat_add_lem [THEN iffD1])
qed

text \<open>
  C8. For every value \<open>V\<close> that fits the chosen width, every offset, size 4 or 8 and both
  byte orders: writing \<open>V\<close> at the offset in that width and byte order into a buffer large
  enough to hold it (a Go slice, whose length is an \<open>int\<close>), then reading the field with
  \<open>readField\<close> at the same offset, size and byte order, returns exactly \<open>V\<close>.
\<close>

theorem readField_encodeField:
  assumes sz: "Size off = 8 \<or> Size off = 4"
    and fit: "unat (Offset off) + unat (Size off) \<le> len buf"
    and goLen: "len buf < 2 ^ 63"
    and rep: "Size off = 4 \<longrightarrow> unat V < 2 ^ 32"
  shows "\<exists>buf'. encodeField buf off littleEndian V = Inr buf' \<and>
                 readField buf' off littleEndian = Inr V"
proof -
  have e: "unat (Offset off + Size off) = unat (Offset off) + unat (Size off)"
    using fit goLen by (rule unat_end_nowrap)
  from sz show ?thesis
  proof
    assume s8: "Size off = 8"
    define bs where "bs = (if littleEndian then bytesLE64 V else bytesBE64 V)"
    have l: "length bs = 8" by (simp add: bs_def bytesLE64_def bytesBE64_def)
    with fit s8 have "unat (Offset off) + length bs \<le> len buf" by simp
    from putBytes_then_slice [OF this] obtain buf' s where
      p: "putBytes buf (unat (Offset off)) bs = Inr buf'" and n: "len buf' = len buf"
      and sl: "sliceExpr buf' (unat (Offset off)) (unat (Offset off) + length bs) =
                 Inr \<lparr>elems = bs, spare = s\<rparr>"
      by blast
    have "encodeField buf off littleEndian V = Inr buf'"
      using p s8 by (simp add: encodeField_def bs_def)
    moreover have "readField buf' off littleEndian = Inr V"
      using s8 e fit n sl l
      by (simp add: readField_def bindE_def bs_def
            LittleEndian_Uint64_bytes BigEndian_Uint64_bytes)
    ultimately show ?thesis by blast
  next
    assume s4: "Size off = 4"
    define bs where "bs = (if littleEndian then bytesLE32 (ucast V) else bytesBE32 (ucast V))"
    have l: "length bs = 4" by (simp add: bs_def bytesLE32_def bytesBE32_def)
    with fit s4 have "unat (Offset off) + length bs \<le> len buf" by simp
    from putBytes_then_slice [OF this] obtain buf' s where
      p: "putBytes buf (unat (Offset off)) bs = Inr buf'" and n: "len buf' = len buf"
      and sl: "sliceExpr buf' (unat (Offset off)) (unat (Offset off) + length bs) =
                 Inr \<lparr>elems = bs, spare = s\<rparr>"
      by blast
    from rep s4 have v: "(ucast (ucast V :: uint32) :: uint64) = V"
      by (simp add: uint32_of_small_uint64)
    have "encodeField buf off littleEndian V = Inr buf'"
      using p s4 by (simp add: encodeField_def bs_def)
    moreover have "readField buf' off littleEndian = Inr V"
      using s4 e fit n sl l v
      by (simp add: readField_def bindE_def bs_def widen_def
            LittleEndian_Uint32_bytes BigEndian_Uint32_bytes)
    ultimately show ?thesis by blast
  qed
qed

theorem readField_encodeField_witness:
  "bindE (encodeField (make 7) \<lparr>Offset = 2, Size = 4\<rparr> True 0xDEADBEEF)
     (\<lambda>buf. readField buf \<lparr>Offset = 2, Size = 4\<rparr> True) = Inr 0xDEADBEEF"
  using readField_encodeField [of "\<lparr>Offset = 2, Size = 4\<rparr>" "make 7" "0xDEADBEEF" True]
  by (auto simp add: make_def len_def bindE_def)

section \<open>The validator\<close>

text \<open>
  C7. For every module record and expected text start, \<open>ValidateModuleData\<close> returns an
  error if and only if the record's text address differs from the expected one or one of
  the slices type links, interface-table links, legacy types, init tasks has a length
  above its capacity; otherwise it succeeds.
\<close>

theorem ValidateModuleData_fails_iff:
  "ValidateModuleData md firstFuncEntry \<noteq> None \<longleftrightarrow>
     (TextVA md \<noteq> firstFuncEntry
      \<or> Len (Typelinks md) > Capacity (Typelinks md)
      \<or> Len (ITablinks md) > Capacity (ITablinks md)
      \<or> Len (LegacyTypes md) > Capacity (LegacyTypes md)
      \<or> Len (InitTasks md) > Capacity (InitTasks md))"
  by (simp add: ValidateModuleData_def)

theorem ValidateModuleData_fails_iff_witness:
  "ValidateModuleData (zeroModuleData\<lparr>InitTasks := \<lparr>Data = 0xd000, Len = 11, Capacity = 10\<rparr>\<rparr>) 0 \<noteq> None
   \<and> \<not> ValidateModuleData zeroModuleData 0 \<noteq> None"
  using ValidateModuleData_fails_iff
          [of "zeroModuleData\<lparr>InitTasks := \<lparr>Data = 0xd000, Len = 11, Capacity = 10\<rparr>\<rparr>" 0]
        ValidateModuleData_fails_iff [of zeroModuleData 0]
  by (simp add: zeroModuleData_def zeroSlice_def)

section \<open>The parser\<close>

text \<open>
  C10. For every buffer, the empty one included, and every version whose lookup key is
  not in the registry, \<open>ParseModuleData\<close> returns without error a record whose scalar
  fields are all 0 and whose slice fields are all the zero slice.
\<close>

theorem ParseModuleData_unknown_version:
  assumes "versionLayoutMap (layoutKey version is64bit) = None"
  shows "ParseModuleData data version is64bit littleEndian = Inr zeroModuleData"
proof -
  have "getLayout version is64bit = defaultLayout"
    using assms by (rule getLayout_default)
  then show ?thesis
    by (simp add: ParseModuleData_def Let_def defaultLayout_def absent_def
          readField_def readSlice_def bindE_def zeroModuleData_def)
qed

theorem ParseModuleData_unknown_version_witness:
  "ParseModuleData (make 0) ''9.99'' True True = Inr zeroModuleData"
  using ParseModuleData_unknown_version [of "''9.99''" True "make 0" True]
  by (simp add: versionLayoutMap_def versionLayoutTable_def layoutKey_def)

subsection \<open>The test buffers of \<open>createTestModuleData\<close>\<close>

lemma getLayout_known:
  "getLayout ''1.22'' True = layout_1_22_64"
  "getLayout ''1.20'' False = layout_1_20"
  by (simp_all add: getLayout_def layoutKey_def versionLayoutMap_def versionLayoutTable_def)

lemma version_tests:
  "Compare ''1.22'' ''1.7'' = - 1" "Compare ''1.20'' ''1.7'' = - 1"
  "\<not> HasPrefix ''1.22'' ''1.5''" "\<not> HasPrefix ''1.20'' ''1.5''"
  "stringGe ''1.22'' ''1.18''" "stringGe ''1.22'' ''1.20''" "stringGe ''1.22'' ''1.22''"
  "stringGe ''1.20'' ''1.18''" "stringGe ''1.20'' ''1.20''" "\<not> stringGe ''1.20'' ''1.22''"
  by (simp_all add: Compare_def HasPrefix_def stringGe_def)

lemmas eval_defs =
  createTestModuleData_def writeAt_def writeSlice_def putBytes_def bindE_def make_def
  len_def cap_def Let_def absent_def bytesLE64_def bytesLE32_def readField_def readSlice_def
  sliceExpr_def LittleEndian_Uint64_def LittleEndian_Uint32_def readWords64_def
  readWords32_def widen_def nth_append ParseModuleData_def zeroModuleData_def zeroSlice_def

text \<open>What \<open>ParseModuleData\<close> returns on the test buffers of versions 1.22 and 1.20.\<close>

definition parsedTestData :: ModuleData where
  "parsedTestData = \<lparr>
     TextVA = 0x1000, Types = 0x2000, ETypes = 0x3000,
     Typelinks = \<lparr>Data = 0x5000, Len = 10, Capacity = 0x9000\<rparr>,
     ITablinks = \<lparr>Data = 0xa000, Len = 0xb000, Capacity = 0xc000\<rparr>,
     LegacyTypes = \<lparr>Data = 0, Len = 0, Capacity = 0\<rparr>,
     Rodata = 0, Gofunc = 0, Covctrs = 0, Ecovctrs = 0,
     InitTasks = \<lparr>Data = 0, Len = 0, Capacity = 0\<rparr>\<rparr>"

lemma test_1_22_64_len:
  "bindE (createTestModuleData ''1.22'' True) (\<lambda>data. Inr (len data)) = Inr 1024"
  by (simp add: getLayout_known version_tests layout_1_22_64_def eval_defs)

lemma test_1_22_64_Text:
  "bindE (createTestModuleData ''1.22'' True)
     (\<lambda>data. readField data (Text (getLayout ''1.22'' True)) True) = Inr 0x1000"
  by (simp add: getLayout_known version_tests layout_1_22_64_def eval_defs)

lemma test_1_22_64_InitTasks:
  "bindE (createTestModuleData ''1.22'' True)
     (\<lambda>data. readSlice data (ModuleDataLayout.InitTasks (getLayout ''1.22'' True))
                (PtrSize (getLayout ''1.22'' True)) True) =
   Inr \<lparr>Data = 0xd000, Len = 5, Capacity = 10\<rparr>"
  by (simp add: getLayout_known version_tests layout_1_22_64_def eval_defs)

lemma test_1_22_64_parsed:
  "bindE (createTestModuleData ''1.22'' True)
     (\<lambda>data. ParseModuleData data ''1.22'' True True) = Inr parsedTestData"
  by (simp add: getLayout_known version_tests layout_1_22_64_def eval_defs parsedTestData_def)

lemma parsedTestData_valid:
  "ValidateModuleData parsedTestData 0x1000 = None"
  "ValidateModuleData parsedTestData 0x5000 = Some (TextVAMismatch 0x1000 0x5000)"
  by (simp_all add: ValidateModuleData_def parsedTestData_def)

text \<open>
  C1. For a buffer of 1024 bytes, little-endian, version "1.22", 64-bit, with the text
  start written as \<open>0x1000\<close> and the init-tasks slice written as \<open>(0xd000, 5, 10)\<close> at the
  offsets of the layout, \<open>ParseModuleData\<close> returns a record with text address \<open>0x1000\<close>
  and init tasks \<open>(0xd000, 5, 10)\<close>, which validates against \<open>0x1000\<close> and not against
  \<open>0x5000\<close>. On the buffer of \<open>createTestModuleData("1.22", true)\<close>, which holds these
  values at these offsets, the text address and the two validations are as stated, but
  the init tasks of the record are the zero slice: "1.22" compares below "1.7" as a
  string, so the parser decodes none of the version-specific fields.
\<close>

theorem ParseModuleData_test_1_22_64:
  "bindE (createTestModuleData ''1.22'' True) (\<lambda>data. Inr (len data)) = Inr 1024 \<and>
   bindE (createTestModuleData ''1.22'' True)
     (\<lambda>data. readField data (Text (getLayout ''1.22'' True)) True) = Inr 0x1000 \<and>
   bindE (createTestModuleData ''1.22'' True)
     (\<lambda>data. readSlice data (ModuleDataLayout.InitTasks (getLayout ''1.22'' True))
                (PtrSize (getLayout ''1.22'' True)) True) =
     Inr \<lparr>Data = 0xd000, Len = 5, Capacity = 10\<rparr> \<and>
   bindE (createTestModuleData ''1.22'' True)
     (\<lambda>data. ParseModuleData data ''1.22'' True True) = Inr parsedTestData \<and>
   TextVA parsedTestData = 0x1000 \<and>
   InitTasks parsedTestData = zeroSlice \<and>
   ValidateModuleData parsedTestData 0x1000 = None \<and>
   ValidateModuleData parsedTestData 0x5000 = Some (TextVAMismatch 0x1000 0x5000)"
proof -
  have "TextVA parsedTestData = 0x1000" "InitTasks parsedTestData = zeroSlice"
    by (simp_all add: parsedTestData_def zeroSlice_def)
  with test_1_22_64_len test_1_22_64_Text test_1_22_64_InitTasks test_1_22_64_parsed
    parsedTestData_valid
  show ?thesis by blast
qed

lemma test_1_20_fields:
  "bindE (createTestModuleData ''1.20'' False)
     (\<lambda>data. readField data (ModuleDataLayout.Rodata (getLayout ''1.20'' False)) True) = Inr 0x9000"
  "bindE (createTestModuleData ''1.20'' False)
     (\<lambda>data. readField data (ModuleDataLayout.Gofunc (getLayout ''1.20'' False)) True) = Inr 0xa000"
  "bindE (createTestModuleData ''1.20'' False)
     (\<lambda>data. readField data (ModuleDataLayout.Covctrs (getLayout ''1.20'' False)) True) = Inr 0xb000"
  "bindE (createTestModuleData ''1.20'' False)
     (\<lambda>data. readField data (ModuleDataLayout.Ecovctrs (getLayout ''1.20'' False)) True) = Inr 0xc000"
  by (simp_all add: getLayout_known version_tests layout_1_20_def eval_defs)

lemma test_1_20_parsed:
  "bindE (createTestModuleData ''1.20'' False)
     (\<lambda>data. ParseModuleData data ''1.20'' False True) = Inr parsedTestData"
  by (simp add: getLayout_known version_tests layout_1_20_def eval_defs parsedTestData_def)

text \<open>
  C2. Under the comparison the parser uses for its tiers, "1.20" is at least "1.7", so
  that for version "1.20" \<open>ParseModuleData\<close> also decodes the read-only-data and go-func
  fields and the two coverage-counter fields. \<open>strings.Compare("1.20", "1.7")\<close> is -1, and
  on the buffer of \<open>createTestModuleData("1.20", false)\<close>, which holds \<open>0x9000\<close>, \<open>0xa000\<close>,
  \<open>0xb000\<close> and \<open>0xc000\<close> at the offsets of these four fields, the record returned has all
  four at 0.
\<close>

theorem ParseModuleData_test_1_20:
  "Compare ''1.20'' ''1.7'' = - 1 \<and>
   bindE (createTestModuleData ''1.20'' False)
     (\<lambda>data. readField data (ModuleDataLayout.Rodata (getLayout ''1.20'' False)) True) = Inr 0x9000 \<and>
   bindE (createTestModuleData ''1.20'' False)
     (\<lambda>data. readField data (ModuleDataLayout.Gofunc (getLayout ''1.20'' False)) True) = Inr 0xa000 \<and>
   bindE (createTestModuleData ''1.20'' False)
     (\<lambda>data. readField data (ModuleDataLayout.Covctrs (getLayout ''1.20'' False)) True) = Inr 0xb000 \<and>
   bindE (createTestModuleData ''1.20'' False)
     (\<lambda>data. readField data (ModuleDataLayout.Ecovctrs (getLayout ''1.20'' False)) True) = Inr 0xc000 \<and>
   bindE (createTestModuleData ''1.20'' False)
     (\<lambda>data. ParseModuleData data ''1.20'' False True) = Inr parsedTestData \<and>
   Rodata parsedTestData = 0 \<and> Gofunc parsedTestData = 0 \<and>
   Covctrs parsedTestData = 0 \<and> Ecovctrs parsedTestData = 0"
proof -
  have "Rodata parsedTestData = 0" "Gofunc parsedTestData = 0"
    "Covctrs parsedTestData = 0" "Ecovctrs parsedTestData = 0"
    by (simp_all add: parsedTestData_def)
  with version_tests(2) test_1_20_fields test_1_20_parsed
  show ?thesis by blast
qed

end
